theory Spec2Isabelle
  imports Main "HOL-Library.Word"
begin

unbundle bit_operations_syntax

section \<open>CAN chat on the Arduino Mega: data model\<close>

text \<open>
  The sketch \<^verbatim>\<open>canChat/mega/mega.ino\<close> runs on an ATmega2560: \<^verbatim>\<open>byte\<close> has 8 bits,
  \<^verbatim>\<open>int\<close> and \<^verbatim>\<open>unsigned int\<close> have 16 bits, \<^verbatim>\<open>unsigned long\<close> has 32 bits.
\<close>

type_synonym byte = "8 word"

text \<open>
  \<^verbatim>\<open>enum Device { UNO = 0, MEGA = 1 }\<close>. Objects of this type only ever hold one of the
  two enumerators; \<open>Device_val\<close> is the integer an enumerator converts to.
\<close>

datatype Device = UNO | MEGA

fun Device_val :: "Device \<Rightarrow> 16 word" where
  "Device_val UNO = 0"
| "Device_val MEGA = 1"

text \<open>
  \<^verbatim>\<open>enum Zero { NONE = B00000, JZ = B00001, RH = B00010, WM = B00100, EH = B01000, DC = B10000 }\<close>.
  The decoder stores the raw five bits of the identifier into an object of this type
  (\<^verbatim>\<open>*sender = (Zero) src\<close>), so an object of type \<^verbatim>\<open>Zero\<close> can hold any value from 0 to 31 and
  not only an enumerator. The type is therefore modelled by the integer it is stored as, and
  the enumerators are constants.
\<close>

type_synonym Zero = "16 word"

definition NONE :: Zero where "NONE = 0"
definition JZ :: Zero where "JZ = 1"
definition RH :: Zero where "RH = 2"
definition WM :: Zero where "WM = 4"
definition EH :: Zero where "EH = 8"
definition DC :: Zero where "DC = 16"

text \<open>The five team members, that is every enumerator of \<^verbatim>\<open>Zero\<close> other than \<^verbatim>\<open>NONE\<close>.\<close>

definition members :: "Zero list" where
  "members = [JZ, RH, WM, EH, DC]"

subsection \<open>Global constants\<close>

definition ERROR_MSG :: string where "ERROR_MSG = ''ERROR''"
definition CAN_BASE_FRAME_FORMAT :: byte where "CAN_BASE_FRAME_FORMAT = 0"
definition CAN_ID_CHAT :: "16 word" where "CAN_ID_CHAT = 0x3ff"
definition CAN_SRC_SHIFT :: nat where "CAN_SRC_SHIFT = 5"
definition CAN_CHAT_MASK :: "16 word" where "CAN_CHAT_MASK = 0x400"
definition CAN_ZERO_MASK :: "16 word" where "CAN_ZERO_MASK = 0x1F"
definition CAN_DEVICE_CMD :: "16 word" where "CAN_DEVICE_CMD = 0x400"
definition MY_DEVICE :: Device where "MY_DEVICE = MEGA"
definition DEVICE_TO_COMMAND :: Device where "DEVICE_TO_COMMAND = UNO"
definition DEV_TO_CMD_NAME :: string where "DEV_TO_CMD_NAME = ''Aduino Uno''"
definition DEV_INDEX :: nat where "DEV_INDEX = 0"
definition VAL_INDEX :: nat where "VAL_INDEX = 1"
definition LED_PIN :: int where "LED_PIN = 24"
definition LED_ON_MSG :: string where "LED_ON_MSG = ''LED On''"
definition LED_OFF_MSG :: string where "LED_OFF_MSG = ''LED Off''"
definition MSG_TOO_LONG :: string where "MSG_TOO_LONG = ''Msg Len Too Long''"
definition ZERO_NONE :: string where "ZERO_NONE = ''None''"
definition ZERO_NAME_JZ :: string where "ZERO_NAME_JZ = ''Joel Zamora''"
definition ZERO_NAME_RH :: string where "ZERO_NAME_RH = ''Richard Hemphill''"
definition ZERO_NAME_WM :: string where "ZERO_NAME_WM = ''William Mckinnon''"
definition ZERO_NAME_EH :: string where "ZERO_NAME_EH = ''Eric Hansen''"
definition ZERO_NAME_DC :: string where "ZERO_NAME_DC = ''Daniel Caballero''"
definition CHAT_SENT :: string where "CHAT_SENT = ''SENT: ''"
definition FIRST_SECOND_SEG :: string where "FIRST_SECOND_SEG = '': ''"

text \<open>
  Modelled from the spec: \<^verbatim>\<open>CAN_MAX_CHAR_IN_MESSAGE\<close> is a macro of the CAN shield library,
  which is not part of the sketch. The specification gives the maximum frame payload as
  8 bytes.
\<close>

definition CAN_MAX_CHAR_IN_MESSAGE :: nat where "CAN_MAX_CHAR_IN_MESSAGE = 8"

text \<open>
  Modelled from the spec: \<^verbatim>\<open>HIGH\<close> and \<^verbatim>\<open>LOW\<close> are macros of the Arduino core, which
  is not part of the sketch. The specification gives the command values as 0 for off and
  nonzero for on; the core's values are 1 and 0.
\<close>

definition HIGH :: "16 word" where "HIGH = 1"
definition LOW :: "16 word" where "LOW = 0"

subsection \<open>Session state and effects\<close>

text \<open>
  The three global variables the protocol code reads and writes: \<^verbatim>\<open>Zero me\<close>,
  \<^verbatim>\<open>byte destination\<close> and \<^verbatim>\<open>unsigned int lastId\<close>.
\<close>

record session =
  me :: Zero
  destination :: byte
  lastId :: "16 word"

text \<open>The initial values of the globals.\<close>

definition session0 :: session where
  "session0 = \<lparr>me = NONE, destination = 0, lastId = 0\<rparr>"

text \<open>
  What the code does to the outside world, in program order:
  \<^item> \<open>SendMsgBuf id ext len buf\<close> is \<^verbatim>\<open>mpcCan.sendMsgBuf(id, ext, len, buf)\<close>, with the
    \<open>len\<close> bytes of \<open>buf\<close> the library puts on the bus;
  \<^item> \<open>SerialPrint\<close> and \<open>SerialPrintln\<close> are the calls of the same name on the console;
  \<^item> \<open>DigitalWrite pin val\<close> is \<^verbatim>\<open>digitalWrite(pin, val)\<close>;
  \<^item> \<open>LcdPacket id len data\<close> is a call of \<^verbatim>\<open>displayCanPacket\<close>, which renders the raw
    packet on the LCD; the rendering itself is left to the display and the call is recorded
    with the bytes it reads.
\<close>

datatype event =
    SendMsgBuf "32 word" byte byte "byte list"
  | SerialPrint string
  | SerialPrintln string
  | DigitalWrite int byte
  | LcdPacket "32 word" byte "byte list"

text \<open>The frames put on the bus by a run, as (identifier, length, payload).\<close>

fun frames :: "event list \<Rightarrow> (32 word \<times> byte \<times> byte list) list" where
  "frames [] = []"
| "frames (SendMsgBuf i ext len buf # es) = (i, len, buf) # frames es"
| "frames (e # es) = frames es"

section \<open>Display functions\<close>

text \<open>
  A C string is the characters up to the first NUL. \<open>strlen\<close> counts them; \<open>c_str\<close> is the
  text a function taking \<^verbatim>\<open>const char*\<close> reads from a buffer holding the given characters
  followed by a NUL.
\<close>

definition c_str :: "string \<Rightarrow> string" where
  "c_str s = takeWhile (\<lambda>c. c \<noteq> CHR 0x00) s"

definition strlen :: "string \<Rightarrow> nat" where
  "strlen s = length (c_str s)"

text \<open>The casts between \<^verbatim>\<open>char*\<close> and \<^verbatim>\<open>byte*\<close> reinterpret each character as its code.\<close>

definition byte_of_char :: "char \<Rightarrow> byte" where
  "byte_of_char c = of_char c"

definition char_of_byte :: "byte \<Rightarrow> char" where
  "char_of_byte b = char_of (unat b)"

text \<open>\<^verbatim>\<open>display\<close> forwards to \<^verbatim>\<open>displaySerial\<close>, which prints both segments on one line.\<close>

definition display :: "string \<Rightarrow> string \<Rightarrow> event list" where
  "display first second = [SerialPrintln (c_str first @ FIRST_SECOND_SEG @ c_str second)]"

definition displayCanPacket :: "32 word \<Rightarrow> byte \<Rightarrow> byte list \<Rightarrow> event list" where
  "displayCanPacket i len data = [LcdPacket i len (take (unat len) data)]"

text \<open>
  \<^verbatim>\<open>displayChatMessage\<close>: the name is chosen by a switch on the sender value, the message is
  the first \<open>len\<close> bytes of the data copied into a zeroed buffer.
\<close>

definition srcName :: "Zero \<Rightarrow> string" where
  "srcName sender =
     (if sender = JZ then ZERO_NAME_JZ
      else if sender = RH then ZERO_NAME_RH
      else if sender = WM then ZERO_NAME_WM
      else if sender = EH then ZERO_NAME_EH
      else if sender = DC then ZERO_NAME_DC
      else ZERO_NONE)"

definition displayChatMessage :: "Zero \<Rightarrow> byte \<Rightarrow> byte list \<Rightarrow> event list" where
  "displayChatMessage sender len data =
     display (srcName sender) (map char_of_byte (take (unat len) data))"

section \<open>Sender functions\<close>

text \<open>
  The identifier computed by \<^verbatim>\<open>sendCanMsg\<close>:
  \<^verbatim>\<open>unsigned long id = 0; id &= CAN_ID_CHAT; id |= me << CAN_SRC_SHIFT; id |= destination;\<close>
  The shift is done on the promoted \<^verbatim>\<open>int\<close> and the result converted to \<^verbatim>\<open>unsigned long\<close>.
\<close>

definition chat_id :: "session \<Rightarrow> 32 word" where
  "chat_id s =
     (let id0 = (0 :: 32 word);
          id1 = id0 AND ucast CAN_ID_CHAT;
          id2 = id1 OR scast (push_bit CAN_SRC_SHIFT (me s));
          id3 = id2 OR ucast (destination s)
      in id3)"

text \<open>
  \<^verbatim>\<open>void sendCanMsg(char* msg)\<close>. The argument is the characters \<open>msg\<close> points to (a NUL
  follows them). \<^verbatim>\<open>byte len = strlen(msg)\<close> keeps the low 8 bits of the length. In
  \<^verbatim>\<open>lastId != id\<close> the 16-bit \<^verbatim>\<open>lastId\<close> is widened to \<^verbatim>\<open>unsigned long\<close>;
  \<^verbatim>\<open>lastId = id\<close> keeps the low 16 bits of the identifier.
\<close>

definition sendCanMsg :: "session \<Rightarrow> string \<Rightarrow> event list \<times> session" where
  "sendCanMsg s msg =
     (let len = (of_nat (strlen msg) :: byte) in
      if unat len > CAN_MAX_CHAR_IN_MESSAGE then (display ERROR_MSG MSG_TOO_LONG, s)
      else
        let i = chat_id s;
            (pr, s') =
              (if ucast (lastId s) \<noteq> i
               then ([SendMsgBuf i CAN_BASE_FRAME_FORMAT 0 []], s\<lparr>lastId := ucast i\<rparr>)
               else ([], s));
            payload = map byte_of_char (c_str msg)
        in (pr
            @ [SendMsgBuf i CAN_BASE_FRAME_FORMAT len (take (unat len) payload)]
            @ [SerialPrint CHAT_SENT, SerialPrintln (c_str msg)]
            @ displayCanPacket i len payload,
            s'))"

text \<open>
  \<^verbatim>\<open>void canLedCmdSender(const int ledVal)\<close>: the data field is
  \<^verbatim>\<open>{(byte) DEVICE_TO_COMMAND, (byte) ledVal}\<close> and the identifier is the
  \<^verbatim>\<open>unsigned int\<close> \<^verbatim>\<open>CAN_DEVICE_CMD\<close>, widened when it is passed to \<^verbatim>\<open>sendMsgBuf\<close>.
\<close>

definition canLedCmdSender :: "session \<Rightarrow> 16 word \<Rightarrow> event list \<times> session" where
  "canLedCmdSender s ledVal =
     (let data = [ucast (Device_val DEVICE_TO_COMMAND), ucast ledVal :: byte];
          sz = (of_nat (length data) :: byte);
          i = CAN_DEVICE_CMD;
          (pr, s') =
            (if lastId s \<noteq> i
             then ([SendMsgBuf (ucast i) CAN_BASE_FRAME_FORMAT 0 []], s\<lparr>lastId := i\<rparr>)
             else ([], s))
      in (pr
          @ [SendMsgBuf (ucast i) CAN_BASE_FRAME_FORMAT sz data]
          @ (if ledVal = HIGH then display DEV_TO_CMD_NAME LED_ON_MSG
             else display DEV_TO_CMD_NAME LED_OFF_MSG),
          s'))"

section \<open>Condition checks and processing of received packets\<close>

text \<open>
  \<^verbatim>\<open>bool isChat(const unsigned long id, Zero* sender, bool* forMe)\<close> returns its result and
  the two values it stores through the pointers, in this order. The comparisons
  \<^verbatim>\<open>(~id & CAN_CHAT_MASK) > 0\<close> and \<^verbatim>\<open>src > 0\<close> are unsigned; \<^verbatim>\<open>(dst & me) > 0\<close> compares
  an \<^verbatim>\<open>int\<close>.
\<close>

definition isChat :: "session \<Rightarrow> 32 word \<Rightarrow> bool \<times> Zero \<times> bool" where
  "isChat s i =
     (let chat = ((NOT i AND ucast CAN_CHAT_MASK) > 0);
          src = (ucast (drop_bit CAN_SRC_SHIFT i AND ucast CAN_ZERO_MASK) :: byte);
          dst = (ucast (i AND ucast CAN_ZERO_MASK) :: byte);
          sender = (ucast src :: Zero);
          forMe = (0 <s ((ucast dst :: 16 word) AND me s))
      in (chat \<and> src > 0, sender, forMe))"

text \<open>
  \<^verbatim>\<open>bool isMyLed(const byte len, const byte* data, byte* ledVal)\<close> returns its result and the
  value stored in \<^verbatim>\<open>*ledVal\<close>, which is left unset (\<open>None\<close>) on the early return. \<open>data\<close>
  is the receive buffer.
\<close>

definition isMyLed :: "byte \<Rightarrow> byte list \<Rightarrow> bool \<times> byte option" where
  "isMyLed len data =
     (if unat len < VAL_INDEX + 1 then (False, None)
      else (ucast (data ! DEV_INDEX) = Device_val MY_DEVICE, Some (data ! VAL_INDEX)))"

definition processLedCmd :: "byte \<Rightarrow> byte list \<Rightarrow> event list" where
  "processLedCmd len data =
     (case isMyLed len data of
        (True, Some ledVal) \<Rightarrow> [DigitalWrite LED_PIN ledVal]
      | _ \<Rightarrow> [])"

definition processCanPacket :: "session \<Rightarrow> 32 word \<Rightarrow> byte \<Rightarrow> byte list \<Rightarrow> event list" where
  "processCanPacket s i len data =
     (let (chat, sender, forMe) = isChat s i in
      (if chat then (if forMe then displayChatMessage sender len data else [])
       else processLedCmd len data)
      @ displayCanPacket i len data)"

section \<open>Setup functions\<close>

definition DIVIDER :: string where "DIVIDER = ''--------------------''"
definition ZERO_ALL :: string where "ZERO_ALL = ''Everyone''"
definition NUMBER_STYLE :: string where "NUMBER_STYLE = ''. ''"
definition QUERY_USER :: string where "QUERY_USER = ''Which member are you?''"
definition QUERY_TARGET :: string where
  "QUERY_TARGET = ''Which members should message be sent to?''"
definition QUERY_ANOTHER :: string where "QUERY_ANOTHER = ''Another member (n to exit)?''"
definition USER_WELCOME :: string where "USER_WELCOME = ''Welcome ''"
definition RECIPIENT_LIST :: string where "RECIPIENT_LIST = ''List of recipients:''"
definition MESSAGING_CAN_START :: string where
  "MESSAGING_CAN_START = ''You can now send messages.''"
definition INVALID_SELECTION :: string where
  "INVALID_SELECTION = ''Input types is out of range!''"

subsection \<open>Operator input\<close>

text \<open>
  The operator's input is the list of strings that successive calls of
  \<^verbatim>\<open>Serial.readString()\<close> return. A setup function that polls the serial line after the
  last of them never returns: in the model it stops with \<open>NoMoreInput\<close>.

  \<^verbatim>\<open>atoi\<close> is the C library's: white space is skipped, an optional sign is read, then
  decimal digits up to the first other character; without digits the result is 0. The
  model computes the value as an integer; the library's \<^verbatim>\<open>int\<close> has 16 bits, and the model
  follows it for the inputs whose value fits.
\<close>

definition isspace :: "char \<Rightarrow> bool" where
  "isspace c = (c \<in> {CHR 0x20, CHR 0x09, CHR 0x0A, CHR 0x0B, CHR 0x0C, CHR 0x0D})"

definition isdigit :: "char \<Rightarrow> bool" where
  "isdigit c = ((48 :: nat) \<le> of_char c \<and> of_char c \<le> (57 :: nat))"

fun digits :: "int \<Rightarrow> string \<Rightarrow> int" where
  "digits acc [] = acc"
| "digits acc (c # cs) =
     (if isdigit c then digits (acc * 10 + (int (of_char c) - 48)) cs else acc)"

definition atoi :: "string \<Rightarrow> int" where
  "atoi s =
     (let t = dropWhile isspace s in
      if t \<noteq> [] \<and> hd t = CHR ''-'' then - digits 0 (tl t)
      else if t \<noteq> [] \<and> hd t = CHR ''+'' then digits 0 (tl t)
      else digits 0 t)"

text \<open>\<^verbatim>\<open>String::startsWith\<close>.\<close>

definition startsWith :: "string \<Rightarrow> string \<Rightarrow> bool" where
  "startsWith s p = (take (length p) s = p)"

text \<open>
  How a setup function can stop without returning: it polls for input that does not come,
  or it evaluates \<^verbatim>\<open>1U << (member-1)\<close> with a shift count that is negative or not below the
  16 bits of \<^verbatim>\<open>unsigned int\<close>, for which the language defines no result.
\<close>

datatype setup_stop = NoMoreInput | ShiftOutOfRange

text \<open>The numbered list both prompts print with \<^verbatim>\<open>Serial.print(member++)\<close>.\<close>

definition menu_line :: "string \<Rightarrow> string \<Rightarrow> event list" where
  "menu_line n name = [SerialPrint n, SerialPrint NUMBER_STYLE, SerialPrintln name]"

definition member_menu :: "event list" where
  "member_menu =
     menu_line ''1'' ZERO_NAME_JZ @ menu_line ''2'' ZERO_NAME_RH @ menu_line ''3'' ZERO_NAME_WM
     @ menu_line ''4'' ZERO_NAME_EH @ menu_line ''5'' ZERO_NAME_DC"

subsection \<open>setupUser\<close>

text \<open>
  After the five \<^verbatim>\<open>member++\<close> of the menu, \<^verbatim>\<open>numMembers = member-1\<close> is 5. The loop
  \<^verbatim>\<open>while ((member <= 0) || (member >= numMembers))\<close> starts with \<^verbatim>\<open>member = -1\<close>, so it
  reads at least one reply; it returns the accepted number and the input left.
\<close>

definition numMembers :: int where
  "numMembers = (1 + 5) - 1"

fun setupUser_loop :: "string list \<Rightarrow> (int \<times> string list) option" where
  "setupUser_loop [] = None"
| "setupUser_loop (reply # rest) =
     (let member = atoi reply in
      if member \<le> 0 \<or> member \<ge> numMembers then setupUser_loop rest
      else Some (member, rest))"

text \<open>The \<^verbatim>\<open>switch(member)\<close> after the loop: the identity and the name printed.\<close>

definition user_of :: "int \<Rightarrow> Zero \<times> string" where
  "user_of member =
     (if member = 1 then (JZ, ZERO_NAME_JZ)
      else if member = 2 then (RH, ZERO_NAME_RH)
      else if member = 3 then (WM, ZERO_NAME_WM)
      else if member = 4 then (EH, ZERO_NAME_EH)
      else if member = 5 then (DC, ZERO_NAME_DC)
      else (NONE, ZERO_NONE))"

definition setupUser ::
  "session \<Rightarrow> string list \<Rightarrow> event list \<times> (setup_stop + session \<times> string list)" where
  "setupUser s replies =
     (let pre = [SerialPrintln DIVIDER, SerialPrintln QUERY_USER] @ member_menu in
      case setupUser_loop replies of
        None \<Rightarrow> (pre, Inl NoMoreInput)
      | Some (member, rest) \<Rightarrow>
          (let (z, name) = user_of member in
           (pre @ [SerialPrintln DIVIDER, SerialPrint USER_WELCOME, SerialPrintln name,
                   SerialPrintln DIVIDER],
            Inr (s\<lparr>me := z\<rparr>, rest))))"

subsection \<open>setupTargets\<close>

text \<open>After the six \<^verbatim>\<open>member++\<close> of the menu, \<^verbatim>\<open>allMembers = member-1\<close> is 6.\<close>

definition allMembers :: int where
  "allMembers = (1 + 6) - 1"

text \<open>
  The broadcast branch: \<^verbatim>\<open>destination = CAN_ZERO_MASK; destination &= ~me;\<close>. The
  complement and the conjunction are computed on \<^verbatim>\<open>int\<close> and the result is cut to a byte.
\<close>

definition broadcast :: "session \<Rightarrow> session" where
  "broadcast s =
     (let s1 = s\<lparr>destination := ucast CAN_ZERO_MASK\<rparr>
      in s1\<lparr>destination := ucast ((ucast (destination s1) :: 16 word) AND NOT (me s1))\<rparr>)"

text \<open>
  The body of \<^verbatim>\<open>do { ... } while (true)\<close>, once per reply. The events are those printed
  inside the loop.
\<close>

fun setupTargets_loop ::
  "session \<Rightarrow> string list \<Rightarrow> event list \<times> (setup_stop + session \<times> string list)" where
  "setupTargets_loop s [] = ([], Inl NoMoreInput)"
| "setupTargets_loop s (reply # rest) =
     (if startsWith reply ''n'' \<and> destination s \<noteq> 0 then ([], Inr (s, rest))
      else
        let member = atoi reply in
        if member = allMembers then ([], Inr (broadcast s, rest))
        else if member > 0 \<or> member < allMembers then
          (if 0 \<le> member - 1 \<and> member - 1 < 16 then
             let b = (push_bit (nat (member - 1)) 1 :: 16 word);
                 s' = s\<lparr>destination := ucast ((ucast (destination s) :: 16 word) OR b)\<rparr>;
                 (es, r) = setupTargets_loop s' rest
             in (SerialPrintln QUERY_ANOTHER # es, r)
           else ([], Inl ShiftOutOfRange))
        else
          let (es, r) = setupTargets_loop s rest
          in (SerialPrintln INVALID_SELECTION # SerialPrintln QUERY_ANOTHER # es, r))"

text \<open>The list of recipients printed after the loop, one test per member.\<close>

definition recipient_lines :: "byte \<Rightarrow> event list" where
  "recipient_lines d =
     (if 0 <s ((ucast d :: 16 word) AND JZ) then [SerialPrintln ZERO_NAME_JZ] else [])
     @ (if 0 <s ((ucast d :: 16 word) AND RH) then [SerialPrintln ZERO_NAME_RH] else [])
     @ (if 0 <s ((ucast d :: 16 word) AND WM) then [SerialPrintln ZERO_NAME_WM] else [])
     @ (if 0 <s ((ucast d :: 16 word) AND EH) then [SerialPrintln ZERO_NAME_EH] else [])
     @ (if 0 <s ((ucast d :: 16 word) AND DC) then [SerialPrintln ZERO_NAME_DC] else [])"

definition setupTargets ::
  "session \<Rightarrow> string list \<Rightarrow> event list \<times> (setup_stop + session \<times> string list)" where
  "setupTargets s replies =
     (let s0 = s\<lparr>destination := 0\<rparr>;
          pre = member_menu @ menu_line ''6'' ZERO_ALL @ [SerialPrintln QUERY_TARGET];
          (es, r) = setupTargets_loop s0 replies
      in case r of
           Inl stop \<Rightarrow> (pre @ es, Inl stop)
         | Inr (s', rest) \<Rightarrow>
             (pre @ es
              @ [SerialPrintln DIVIDER, SerialPrintln RECIPIENT_LIST]
              @ recipient_lines (destination s')
              @ [SerialPrintln DIVIDER, SerialPrintln MESSAGING_CAN_START, SerialPrintln DIVIDER],
              Inr (s', rest)))"

section \<open>Runs of the sending threads\<close>

text \<open>
  After setup the only callers of the two senders are the threads: \<^verbatim>\<open>canMsgSender\<close> calls
  \<^verbatim>\<open>sendCanMsg\<close> with the text read from the console and \<^verbatim>\<open>buttonHandler\<close> calls
  \<^verbatim>\<open>canLedCmdSender\<close> with the new button value. The threads run one after the other, so
  what the program transmits is the effect of a sequence of such calls on the session.
\<close>

datatype send_call = ChatText string | LedCmd "16 word"

fun do_send :: "session \<Rightarrow> send_call \<Rightarrow> event list \<times> session" where
  "do_send s (ChatText msg) = sendCanMsg s msg"
| "do_send s (LedCmd ledVal) = canLedCmdSender s ledVal"

fun send_all :: "session \<Rightarrow> send_call list \<Rightarrow> event list \<times> session" where
  "send_all s [] = ([], s)"
| "send_all s (c # cs) =
     (let (es, s') = do_send s c;
          (es', s'') = send_all s' cs
      in (es @ es', s''))"

section \<open>Bit-field arithmetic\<close>

lemmas can_defs =
  CAN_ID_CHAT_def CAN_SRC_SHIFT_def CAN_CHAT_MASK_def CAN_ZERO_MASK_def CAN_DEVICE_CMD_def
  CAN_BASE_FRAME_FORMAT_def CAN_MAX_CHAR_IN_MESSAGE_def

lemmas Zero_defs = NONE_def JZ_def RH_def WM_def EH_def DC_def

lemma le_1F_mask:
  fixes d :: "'a::len word"
  assumes "d \<le> 0x1F"
  shows "d AND mask 5 = d"
proof -
  have "uint d \<le> uint (0x1F :: 'a word)"
    using assms by (simp add: word_le_def)
  also have "\<dots> \<le> 31"
    by (simp add: uint_word_of_int take_bit_eq_mod)
  finally have "uint d < 2 ^ 5"
    by simp
  then show ?thesis
    by (simp add: mask_eq_iff)
qed

lemma and_0x400:
  fixes x :: "'a::len word"
  shows "x AND 0x400 = 0 \<longleftrightarrow> \<not> bit x 10"
proof -
  have "(0x400 :: 'a word) = 2 ^ 10"
    by simp
  then show ?thesis
    by (simp only: and_exp_eq_0_iff_not_bit)
qed

lemma and_0x1F:
  fixes x :: "'a::len word"
  shows "x AND 0x1F = x AND mask 5"
  by (simp add: mask_eq_exp_minus_1)

lemma members_le: "m \<in> set members \<Longrightarrow> m \<le> 0x1F \<and> m \<noteq> 0"
  by (auto simp: members_def Zero_defs)

lemma scast_shift_me:
  fixes m :: "16 word"
  assumes "m \<le> 0x1F"
  shows "(scast (push_bit 5 m) :: 32 word) = push_bit 5 (ucast m)"
proof -
  have "(scast (push_bit 5 (m AND mask 5)) :: 32 word) = push_bit 5 (ucast (m AND mask 5))"
    by (rule bit_eqI) (auto simp: bit_simps bit_signed_iff min_def)
  then show ?thesis
    by (simp only: le_1F_mask [OF assms])
qed

lemma chat_id_eq:
  assumes "me s \<le> 0x1F"
  shows "chat_id s = push_bit 5 (ucast (me s)) OR ucast (destination s)"
  by (simp add: chat_id_def can_defs scast_shift_me [OF assms])

text \<open>The kind bit is clear whatever the destination byte holds.\<close>

lemma chat_id_kind:
  assumes "me s \<le> 0x1F"
  shows "chat_id s AND 0x400 = 0"
proof -
  have "(push_bit 5 (ucast (me s AND mask 5)) OR ucast (destination s) :: 32 word) AND 0x400 = 0"
    unfolding and_0x400 by (auto simp: bit_simps dest: bit_imp_le_length)
  then show ?thesis
    by (simp only: chat_id_eq [OF assms] le_1F_mask [OF assms])
qed

lemma chat_id_sender:
  assumes "me s \<le> 0x1F" and "destination s \<le> 0x1F"
  shows "drop_bit 5 (chat_id s) AND 0x1F = ucast (me s)"
proof -
  have "drop_bit 5 (push_bit 5 (ucast (me s AND mask 5))
          OR ucast (destination s AND mask 5) :: 32 word) AND 0x1F = ucast (me s AND mask 5)"
    unfolding and_0x1F by (rule bit_eqI) (auto simp: bit_simps)
  then show ?thesis
    by (simp only: chat_id_eq [OF assms(1)] le_1F_mask [OF assms(1)] le_1F_mask [OF assms(2)])
qed

lemma chat_id_recipients:
  assumes "me s \<le> 0x1F" and "destination s \<le> 0x1F"
  shows "chat_id s AND 0x1F = ucast (destination s)"
proof -
  have "(push_bit 5 (ucast (me s AND mask 5))
          OR ucast (destination s AND mask 5) :: 32 word) AND 0x1F = ucast (destination s AND mask 5)"
    unfolding and_0x1F by (rule bit_eqI) (auto simp: bit_simps)
  then show ?thesis
    by (simp only: chat_id_eq [OF assms(1)] le_1F_mask [OF assms(1)] le_1F_mask [OF assms(2)])
qed

lemma chat_id_lt_2p16:
  assumes "me s \<le> 0x1F"
  shows "(ucast (ucast (chat_id s) :: 16 word) :: 32 word) = chat_id s"
proof -
  have "(ucast (ucast (push_bit 5 (ucast (me s AND mask 5)) OR ucast (destination s) :: 32 word)
           :: 16 word) :: 32 word)
        = push_bit 5 (ucast (me s AND mask 5)) OR ucast (destination s)"
    by (rule bit_eqI) (auto simp: bit_simps dest: bit_imp_le_length)
  then show ?thesis
    by (simp only: chat_id_eq [OF assms] le_1F_mask [OF assms])
qed

section \<open>What isChat computes\<close>

lemma isChat_result:
  "fst (isChat s i) \<longleftrightarrow> i AND 0x400 = 0 \<and> drop_bit 5 i AND 0x1F \<noteq> 0"
proof -
  have "(NOT i AND 0x400 = 0) \<longleftrightarrow> bit i 10"
    unfolding and_0x400 by (simp add: bit_simps)
  then have a: "(NOT i AND 0x400 > 0) \<longleftrightarrow> i AND 0x400 = 0"
    unfolding and_0x400 [of i] by (simp add: word_greater_zero_iff)
  have "(ucast (ucast (drop_bit 5 i AND 0x1F) :: byte) :: 32 word) = drop_bit 5 i AND 0x1F"
    unfolding and_0x1F by (rule bit_eqI) (auto simp: bit_simps)
  then have "(ucast (drop_bit 5 i AND 0x1F) :: byte) = 0 \<longleftrightarrow> drop_bit 5 i AND 0x1F = 0"
    by (metis ucast_0)
  then have b: "(ucast (drop_bit 5 i AND 0x1F) :: byte) > 0 \<longleftrightarrow> drop_bit 5 i AND 0x1F \<noteq> 0"
    by (simp add: word_greater_zero_iff)
  show ?thesis
    using a b by (simp add: isChat_def can_defs Let_def)
qed

lemma isChat_sender:
  "fst (snd (isChat s i)) = ucast (drop_bit 5 i AND 0x1F)"
proof -
  have "(ucast (ucast (drop_bit 5 i AND 0x1F) :: byte) :: 16 word) = ucast (drop_bit 5 i AND 0x1F)"
    unfolding and_0x1F by (rule bit_eqI) (auto simp: bit_simps)
  then show ?thesis
    by (simp add: isChat_def can_defs Let_def)
qed

lemma isChat_forMe:
  "snd (snd (isChat s i)) \<longleftrightarrow> ucast (i AND 0x1F) AND me s \<noteq> 0"
proof -
  define x where "x = (ucast (ucast (i AND 0x1F) :: byte) :: 16 word) AND me s"
  have x: "x = ucast (i AND 0x1F) AND me s"
    unfolding x_def and_0x1F by (rule bit_eqI) (auto simp: bit_simps)
  have "\<not> bit x 15"
    unfolding x_def and_0x1F by (auto simp: bit_simps)
  then have "sint x = uint x"
    by (intro bit_eqI) (auto simp: bit_sint_iff bit_uint_iff dest: bit_imp_le_length)
  then have "0 <s x \<longleftrightarrow> x \<noteq> 0"
    by (simp add: word_sless_alt word_neq_0_conv word_less_def)
  then show ?thesis
    using x by (simp add: isChat_def can_defs Let_def x_def)
qed

section \<open>What the senders put on the bus\<close>

lemma frames_append: "frames (es @ fs) = frames es @ frames fs"
  by (induction es rule: frames.induct) simp_all

lemma frames_display: "frames (display a b) = []"
  by (simp add: display_def)

lemma frames_displayCanPacket: "frames (displayCanPacket i len data) = []"
  by (simp add: displayCanPacket_def)

lemma sendCanMsg_rejected:
  assumes "unat (of_nat (strlen msg) :: byte) > CAN_MAX_CHAR_IN_MESSAGE"
  shows "sendCanMsg s msg = (display ERROR_MSG MSG_TOO_LONG, s)"
  using assms by (simp add: sendCanMsg_def)

lemma sendCanMsg_sent:
  assumes "unat (of_nat (strlen msg) :: byte) \<le> CAN_MAX_CHAR_IN_MESSAGE"
  shows "frames (fst (sendCanMsg s msg)) =
           (if ucast (lastId s) \<noteq> chat_id s then [(chat_id s, 0, [])] else [])
           @ [(chat_id s, of_nat (strlen msg),
               take (unat (of_nat (strlen msg) :: byte)) (map byte_of_char (c_str msg)))]"
    and "snd (sendCanMsg s msg) =
           (if ucast (lastId s) \<noteq> chat_id s then s\<lparr>lastId := ucast (chat_id s)\<rparr> else s)"
  using assms
  by (simp_all add: sendCanMsg_def Let_def frames_append frames_displayCanPacket)

lemma canLedCmdSender_sent:
  "frames (fst (canLedCmdSender s v)) =
     (if lastId s \<noteq> 0x400 then [(0x400, 0, [])] else [])
     @ [(0x400, 2, [ucast (Device_val DEVICE_TO_COMMAND), ucast v])]"
  "snd (canLedCmdSender s v) = (if lastId s \<noteq> 0x400 then s\<lparr>lastId := 0x400\<rparr> else s)"
  by (simp_all add: canLedCmdSender_def Let_def frames_append frames_display can_defs)

lemma short_len:
  assumes "n \<le> 8"
  shows "unat (of_nat n :: byte) = n"
  using assms by (simp add: unat_of_nat)

lemma c_str_no_nul: "CHR 0x00 \<notin> set t \<Longrightarrow> c_str t = t"
  by (auto simp: c_str_def)

lemma char_of_byte_of_char: "char_of_byte (byte_of_char c) = c"
proof -
  have "unat (of_nat (of_char c) :: byte) = of_char c"
    by (simp add: unat_of_nat)
  then have "unat (of_char c :: byte) = of_char c"
    by (simp only: of_nat_of_char)
  then show ?thesis
    by (simp add: char_of_byte_def byte_of_char_def)
qed

lemma decode_encode_text: "map char_of_byte (map byte_of_char t) = t"
  by (induction t) (simp_all add: char_of_byte_of_char)

section \<open>Chat frames: encoding and decoding\<close>

text \<open>
  Claim C1 (chat round trip). Let the sender be one of the five members \<open>i\<close>, the
  recipient set \<open>r\<close> a mask over the five identity bits, and \<open>t\<close> a non-empty text of at
  most 8 characters (a C string, so without NUL). Then \<open>sendCanMsg\<close> with \<open>me = i\<close> and
  \<open>destination = r\<close> puts on the bus, after the priming frame if there is one, a data frame
  whose length is the length of \<open>t\<close> and whose payload is the bytes of \<open>t\<close>, which read
  back as \<open>t\<close>; and \<open>isChat\<close>, on any receiving board, returns true for the identifier of
  that frame and reports \<open>i\<close> as the sender.
\<close>

theorem chat_round_trip:
  assumes "i \<in> set members" and "r \<le> 0x1F"
    and "t \<noteq> []" and "length t \<le> CAN_MAX_CHAR_IN_MESSAGE" and "CHR 0x00 \<notin> set t"
    and "me s = i" and "destination s = r"
  shows "frames (fst (sendCanMsg s t)) =
           (if ucast (lastId s) \<noteq> chat_id s then [(chat_id s, 0, [])] else [])
           @ [(chat_id s, of_nat (length t), map byte_of_char t)]
       \<and> unat (of_nat (length t) :: byte) = length t
       \<and> map char_of_byte (map byte_of_char t) = t
       \<and> fst (isChat rcv (chat_id s))
       \<and> fst (snd (isChat rcv (chat_id s))) = i"
proof -
  have len: "strlen t = length t"
    using assms(5) by (simp add: strlen_def c_str_no_nul)
  have n: "unat (of_nat (length t) :: byte) = length t"
    using assms(4) by (simp add: short_len CAN_MAX_CHAR_IN_MESSAGE_def)
  have i: "me s \<le> 0x1F" "me s \<noteq> 0"
    using members_le assms(1,6) by auto
  have d: "destination s \<le> 0x1F"
    using assms(2,7) by simp
  have "frames (fst (sendCanMsg s t)) =
          (if ucast (lastId s) \<noteq> chat_id s then [(chat_id s, 0, [])] else [])
          @ [(chat_id s, of_nat (length t), map byte_of_char t)]"
    using sendCanMsg_sent(1) [of t s] assms(4,5) n by (simp add: len c_str_no_nul)
  moreover have "(ucast (me s) :: 32 word) \<noteq> 0"
  proof
    assume "(ucast (me s) :: 32 word) = 0"
    then have "(ucast (ucast (me s) :: 32 word) :: 16 word) = 0"
      by simp
    moreover have "(ucast (ucast (me s) :: 32 word) :: 16 word) = me s"
      by (rule bit_eqI) (auto simp: bit_simps dest: bit_imp_le_length)
    ultimately show False
      using i(2) by simp
  qed
  then have "fst (isChat rcv (chat_id s))"
    by (simp add: isChat_result chat_id_kind [OF i(1)] chat_id_sender [OF i(1) d])
  moreover have "fst (snd (isChat rcv (chat_id s))) = i"
  proof -
    have "(ucast (ucast (me s) :: 32 word) :: 16 word) = me s"
      by (rule bit_eqI) (auto simp: bit_simps dest: bit_imp_le_length)
    then show ?thesis
      by (simp add: isChat_sender chat_id_sender [OF i(1) d] assms(6))
  qed
  ultimately show ?thesis
    using n decode_encode_text [of t] by simp
qed

theorem chat_round_trip_witness:
  "RH \<in> set members \<and> (0x0C :: byte) \<le> 0x1F \<and> ''hi'' \<noteq> []
   \<and> length ''hi'' \<le> CAN_MAX_CHAR_IN_MESSAGE \<and> CHR 0x00 \<notin> set ''hi''
   \<and> frames (fst (sendCanMsg \<lparr>me = RH, destination = 0x0C, lastId = 0\<rparr> ''hi''))
       = [(0x4C, 0, []), (0x4C, 2, [0x68, 0x69])]
   \<and> map char_of_byte [0x68, 0x69] = ''hi''
   \<and> isChat \<lparr>me = WM, destination = 0, lastId = 0\<rparr> 0x4C = (True, RH, True)
   \<and> isChat \<lparr>me = JZ, destination = 0, lastId = 0\<rparr> 0x4C = (True, RH, False)"
proof -
  let ?s = "\<lparr>me = RH, destination = 0x0C, lastId = 0\<rparr>"
  have hyps: "RH \<in> set members" "(0x0C :: byte) \<le> 0x1F" "''hi'' \<noteq> []"
    "length ''hi'' \<le> CAN_MAX_CHAR_IN_MESSAGE" "CHR 0x00 \<notin> set ''hi''"
    by (simp_all add: members_def can_defs)
  have vals: "chat_id ?s = 0x4C" "map byte_of_char ''hi'' = [0x68, 0x69]"
    by (simp_all add: chat_id_def can_defs Zero_defs byte_of_char_def)
  have forMe: "snd (snd (isChat \<lparr>me = WM, destination = 0, lastId = 0\<rparr> 0x4C))"
    "\<not> snd (snd (isChat \<lparr>me = JZ, destination = 0, lastId = 0\<rparr> 0x4C))"
    by (simp_all add: isChat_forMe Zero_defs)
  show ?thesis
    using chat_round_trip [of RH "0x0C" "''hi''" ?s "\<lparr>me = WM, destination = 0, lastId = 0\<rparr>"]
      chat_round_trip [of RH "0x0C" "''hi''" ?s "\<lparr>me = JZ, destination = 0, lastId = 0\<rparr>"]
      hyps vals forMe
    by (auto simp: prod_eq_iff)
qed

lemma sendCanMsg_ids:
  "f \<in> set (frames (fst (sendCanMsg s msg))) \<Longrightarrow> fst f = chat_id s"
  by (cases "unat (of_nat (strlen msg) :: byte) \<le> CAN_MAX_CHAR_IN_MESSAGE")
    (auto simp: sendCanMsg_sent(1) sendCanMsg_rejected frames_display split: if_splits)

text \<open>
  Claim C2 (chat identifier layout). For a sender value that fits the five-bit sender field
  (every identity does) and a recipient set over the five identity bits, every frame
  \<open>sendCanMsg\<close> sends carries the identifier \<open>(me << 5) | destination\<close>: the kind bit
  0x400 is clear, bits 5 to 9 hold the sender and bits 0 to 4 the recipient set. For sender
  RH (0x02) and recipients WM, EH (0x0C) the identifier is 0x4C.
\<close>

theorem chat_id_layout:
  assumes "me s \<le> 0x1F" and "destination s \<le> 0x1F"
  shows "(\<forall>f \<in> set (frames (fst (sendCanMsg s msg))). fst f = chat_id s)
       \<and> chat_id s = push_bit 5 (ucast (me s)) OR ucast (destination s)
       \<and> chat_id s AND 0x400 = 0
       \<and> drop_bit 5 (chat_id s) AND 0x1F = ucast (me s)
       \<and> chat_id s AND 0x1F = ucast (destination s)"
proof (intro conjI)
  show "\<forall>f \<in> set (frames (fst (sendCanMsg s msg))). fst f = chat_id s"
    by (simp add: sendCanMsg_ids)
  show "chat_id s = push_bit 5 (ucast (me s)) OR ucast (destination s)"
    by (rule chat_id_eq [OF assms(1)])
  show "chat_id s AND 0x400 = 0"
    by (rule chat_id_kind [OF assms(1)])
  show "drop_bit 5 (chat_id s) AND 0x1F = ucast (me s)"
    by (rule chat_id_sender [OF assms])
  show "chat_id s AND 0x1F = ucast (destination s)"
    by (rule chat_id_recipients [OF assms])
qed

theorem chat_id_layout_witness:
  "RH \<le> 0x1F \<and> (0x0C :: byte) \<le> 0x1F
   \<and> frames (fst (sendCanMsg \<lparr>me = RH, destination = 0x0C, lastId = 0\<rparr> ''hi''))
       = [(0x4C, 0, []), (0x4C, 2, [0x68, 0x69])]
   \<and> chat_id \<lparr>me = RH, destination = 0x0C, lastId = 0\<rparr> = 0x4C
   \<and> (0x4C :: 32 word) AND 0x400 = 0
   \<and> drop_bit 5 (0x4C :: 32 word) AND 0x1F = 0x02
   \<and> (0x4C :: 32 word) AND 0x1F = 0x0C"
proof -
  let ?s = "\<lparr>me = RH, destination = 0x0C, lastId = 0\<rparr>"
  have id: "chat_id ?s = 0x4C"
    by (simp add: chat_id_def can_defs Zero_defs)
  have sent: "frames (fst (sendCanMsg ?s ''hi'')) = [(0x4C, 0, []), (0x4C, 2, [0x68, 0x69])]"
    by (simp add: sendCanMsg_def strlen_def c_str_def can_defs id
        byte_of_char_def displayCanPacket_def Let_def)
  show ?thesis
    using chat_id_layout [of ?s "''hi''"] id sent by (simp add: Zero_defs)
qed

text \<open>
  Claim C3 (recipient membership). For every identifier, the flag \<open>forMe\<close> that \<open>isChat\<close>
  stores is true exactly when the recipient field (bits 0 to 4) and \<open>me\<close> have a bit in
  common. When a member's destination is the set the broadcast branch of \<open>setupTargets\<close>
  builds (all five identity bits without the sender's own), the flag is true on the board of
  every other member and false on the sender's own board.
\<close>

theorem recipient_membership:
  "(snd (snd (isChat rcv i)) \<longleftrightarrow> ucast (i AND 0x1F) AND me rcv \<noteq> 0)
   \<and> (me sender \<in> set members \<and> me rcv \<in> set members \<longrightarrow>
        (snd (snd (isChat rcv (chat_id (broadcast sender)))) \<longleftrightarrow> me rcv \<noteq> me sender))"
proof -
  have "snd (snd (isChat rcv (chat_id (broadcast sender)))) \<longleftrightarrow> me rcv \<noteq> me sender"
    if "me sender \<in> set members" and "me rcv \<in> set members"
    using that
    by (auto simp: isChat_forMe members_def Zero_defs broadcast_def chat_id_def can_defs)
  then show ?thesis
    by (simp add: isChat_forMe)
qed

theorem recipient_membership_witness:
  "me \<lparr>me = RH, destination = 0, lastId = 0\<rparr> \<in> set members
   \<and> me \<lparr>me = WM, destination = 0, lastId = 0\<rparr> \<in> set members
   \<and> destination (broadcast \<lparr>me = RH, destination = 0, lastId = 0\<rparr>) = 0x1D
   \<and> chat_id (broadcast \<lparr>me = RH, destination = 0, lastId = 0\<rparr>) = 0x5D
   \<and> snd (snd (isChat \<lparr>me = WM, destination = 0, lastId = 0\<rparr> 0x5D))
   \<and> \<not> snd (snd (isChat \<lparr>me = RH, destination = 0, lastId = 0\<rparr> 0x5D))"
proof -
  let ?snd = "\<lparr>me = RH, destination = 0, lastId = 0\<rparr>"
  have b: "destination (broadcast ?snd) = 0x1D" "chat_id (broadcast ?snd) = 0x5D"
    by (simp_all add: broadcast_def chat_id_def can_defs Zero_defs)
  show ?thesis
    using recipient_membership [of "\<lparr>me = WM, destination = 0, lastId = 0\<rparr>" 0 ?snd]
      recipient_membership [of ?snd 0 ?snd] b
    by (simp add: members_def Zero_defs)
qed

text \<open>Choosing entry 6 of the recipient menu takes the broadcast branch.\<close>

lemma setupTargets_everyone:
  "snd (setupTargets s [''6'']) = Inr (broadcast (s\<lparr>destination := 0\<rparr>), [])"
  by (simp add: setupTargets_def startsWith_def atoi_def isspace_def isdigit_def allMembers_def
      Let_def)

section \<open>Dispatch of received packets\<close>

text \<open>
  Claim C4 (zero sender). A packet whose identifier has bits 5 to 9 all clear is not a chat
  for \<open>isChat\<close>, whatever its kind bit, and \<open>processCanPacket\<close> hands it to
  \<open>processLedCmd\<close> before logging it.
\<close>

theorem zero_sender_not_chat:
  assumes "drop_bit 5 i AND 0x1F = 0"
  shows "\<not> fst (isChat s i)
       \<and> processCanPacket s i len data = processLedCmd len data @ displayCanPacket i len data"
  using assms by (simp add: processCanPacket_def split_beta isChat_result)

theorem zero_sender_not_chat_witness:
  "drop_bit 5 (0x0C :: 32 word) AND 0x1F = 0 \<and> (0x0C :: 32 word) AND 0x400 = 0
   \<and> \<not> fst (isChat \<lparr>me = WM, destination = 0, lastId = 0\<rparr> 0x0C)
   \<and> processCanPacket \<lparr>me = WM, destination = 0, lastId = 0\<rparr> 0x0C 2 [1, 1, 0, 0, 0, 0, 0, 0]
       = [DigitalWrite LED_PIN 1, LcdPacket 0x0C 2 [1, 1]]"
proof -
  have "processLedCmd 2 [1, 1, 0, 0, 0, 0, 0, 0] = [DigitalWrite LED_PIN 1]"
    by (simp add: processLedCmd_def isMyLed_def VAL_INDEX_def DEV_INDEX_def MY_DEVICE_def)
  then show ?thesis
    using zero_sender_not_chat [of "0x0C" "\<lparr>me = WM, destination = 0, lastId = 0\<rparr>" 2
        "[1, 1, 0, 0, 0, 0, 0, 0]"]
    by (simp add: displayCanPacket_def)
qed

text \<open>
  Claim C10 (no validation of the sender field). For every identifier with the kind bit
  clear and bits 5 to 9 not all zero, \<open>isChat\<close> returns true and stores the five raw bits
  as the sender, also when they are not the value of one member: the identifier 0x60 gives
  the sender 0x03.
\<close>

theorem composite_sender_accepted:
  assumes "i AND 0x400 = 0" and "drop_bit 5 i AND 0x1F \<noteq> 0"
  shows "fst (isChat s i) \<and> fst (snd (isChat s i)) = ucast (drop_bit 5 i AND 0x1F)"
  using assms by (simp add: isChat_result isChat_sender)

theorem composite_sender_accepted_witness:
  "(0x60 :: 32 word) AND 0x400 = 0 \<and> drop_bit 5 (0x60 :: 32 word) AND 0x1F \<noteq> 0
   \<and> fst (isChat \<lparr>me = WM, destination = 0, lastId = 0\<rparr> 0x60)
   \<and> fst (snd (isChat \<lparr>me = WM, destination = 0, lastId = 0\<rparr> 0x60)) = 0x03
   \<and> (0x03 :: Zero) \<notin> set (NONE # members)"
  using composite_sender_accepted [of "0x60" "\<lparr>me = WM, destination = 0, lastId = 0\<rparr>"]
  by (simp add: members_def Zero_defs)

lemma ucast_byte_back: "(ucast (ucast (b :: byte) :: 16 word) :: byte) = b"
  by (rule bit_eqI) (auto simp: bit_simps dest: bit_imp_le_length)

lemma ucast_byte_eq_iff: "(ucast (b :: byte) :: 16 word) = ucast c \<longleftrightarrow> b = c"
  by (metis ucast_byte_back)

lemma isMyLed_eq:
  "isMyLed len data =
     (if unat len < 2 then (False, None)
      else (data ! 0 = ucast (Device_val MY_DEVICE), Some (data ! 1)))"
proof -
  have "(ucast (data ! 0) :: 16 word) = Device_val MY_DEVICE
        \<longleftrightarrow> data ! 0 = ucast (Device_val MY_DEVICE)"
    using ucast_byte_eq_iff [of "data ! 0" 1] by (simp add: MY_DEVICE_def)
  then show ?thesis
    by (simp add: isMyLed_def VAL_INDEX_def DEV_INDEX_def)
qed

lemma processLedCmd_eq:
  "processLedCmd len data =
     (if 2 \<le> unat len \<and> data ! 0 = ucast (Device_val MY_DEVICE)
      then [DigitalWrite LED_PIN (data ! 1)] else [])"
  by (simp add: processLedCmd_def isMyLed_eq)

text \<open>
  Claim C5 (command classification and device filter). For a packet that \<open>isChat\<close> does
  not take as a chat, read from the 8-byte receive buffer: \<open>processCanPacket\<close> writes the
  LED exactly when the length is at least 2 and byte 0 of the data is the local device, and
  then it writes the pin \<open>LED_PIN\<close> with byte 1 of the data; with a length of 0 or 1 nothing
  is written. The local device is MEGA, so a command whose byte 0 is UNO (0) never writes
  the LED.
\<close>

theorem led_command_filter:
  assumes "\<not> fst (isChat s i)" and "length data = CAN_MAX_CHAR_IN_MESSAGE"
  shows "(DigitalWrite pin v \<in> set (processCanPacket s i len data) \<longleftrightarrow>
            2 \<le> unat len \<and> data ! DEV_INDEX = ucast (Device_val MY_DEVICE)
            \<and> pin = LED_PIN \<and> v = data ! VAL_INDEX)
       \<and> MY_DEVICE = MEGA
       \<and> (data ! DEV_INDEX = ucast (Device_val UNO) \<longrightarrow>
            DigitalWrite pin v \<notin> set (processCanPacket s i len data))"
proof -
  have p: "processCanPacket s i len data = processLedCmd len data @ displayCanPacket i len data"
    using assms(1) by (simp add: processCanPacket_def split_beta)
  show ?thesis
    unfolding p processLedCmd_eq
    by (auto simp: displayCanPacket_def MY_DEVICE_def DEV_INDEX_def VAL_INDEX_def)
qed

theorem led_command_filter_witness:
  "\<not> fst (isChat \<lparr>me = RH, destination = 0, lastId = 0\<rparr> 0x400)
   \<and> length [0, 1, 0, 0, 0, 0, 0, 0 :: byte] = CAN_MAX_CHAR_IN_MESSAGE
   \<and> [0, 1, 0, 0, 0, 0, 0, 0 :: byte] ! DEV_INDEX = ucast (Device_val UNO)
   \<and> DigitalWrite LED_PIN 1
       \<notin> set (processCanPacket \<lparr>me = RH, destination = 0, lastId = 0\<rparr> 0x400 2 [0, 1, 0, 0, 0, 0, 0, 0])
   \<and> processCanPacket \<lparr>me = RH, destination = 0, lastId = 0\<rparr> 0x400 2 [0, 1, 0, 0, 0, 0, 0, 0]
       = [LcdPacket 0x400 2 [0, 1]]
   \<and> processCanPacket \<lparr>me = RH, destination = 0, lastId = 0\<rparr> 0x400 2 [1, 1, 0, 0, 0, 0, 0, 0]
       = [DigitalWrite LED_PIN 1, LcdPacket 0x400 2 [1, 1]]
   \<and> processCanPacket \<lparr>me = RH, destination = 0, lastId = 0\<rparr> 0x400 1 [1, 0, 0, 0, 0, 0, 0, 0]
       = [LcdPacket 0x400 1 [1]]"
proof -
  let ?s = "\<lparr>me = RH, destination = 0, lastId = 0\<rparr>"
  have n: "\<not> fst (isChat ?s 0x400)"
    by (simp add: isChat_result)
  have p: "processCanPacket ?s 0x400 len data = processLedCmd len data @ displayCanPacket 0x400 len data"
    for len data
    using n by (simp add: processCanPacket_def split_beta)
  show ?thesis
    using led_command_filter [of ?s "0x400" "[0, 1, 0, 0, 0, 0, 0, 0]" LED_PIN 1 2] n
    by (simp add: p processLedCmd_eq displayCanPacket_def can_defs DEV_INDEX_def MY_DEVICE_def)
qed

section \<open>The priming frame and lastId\<close>

lemma do_send_me: "me (snd (do_send s c)) = me s"
proof (cases c)
  case (ChatText msg)
  then show ?thesis
    by (cases "unat (of_nat (strlen msg) :: byte) \<le> CAN_MAX_CHAR_IN_MESSAGE")
      (simp_all add: sendCanMsg_sent(2) sendCanMsg_rejected)
next
  case (LedCmd v)
  then show ?thesis
    by (simp add: canLedCmdSender_sent(2))
qed

lemma sendCanMsg_lastId:
  assumes "me s \<le> 0x1F" and "unat (of_nat (strlen msg) :: byte) \<le> CAN_MAX_CHAR_IN_MESSAGE"
  shows "ucast (lastId (snd (sendCanMsg s msg))) = chat_id s"
  using chat_id_lt_2p16 [OF assms(1)] by (auto simp: sendCanMsg_sent(2) [OF assms(2)])

lemma canLedCmdSender_lastId: "lastId (snd (canLedCmdSender s v)) = 0x400"
  by (simp add: canLedCmdSender_sent(2))

lemma do_send_cases:
  assumes "me s \<le> 0x1F"
  shows "(frames (fst (do_send s c)) = [] \<and> snd (do_send s c) = s)
       \<or> (frames (fst (do_send s c)) \<noteq> []
           \<and> ucast (lastId (snd (do_send s c))) = fst (last (frames (fst (do_send s c)))))"
proof (cases c)
  case (ChatText msg)
  show ?thesis
  proof (cases "unat (of_nat (strlen msg) :: byte) \<le> CAN_MAX_CHAR_IN_MESSAGE")
    case True
    then show ?thesis
      using sendCanMsg_lastId [OF assms True] ChatText by (simp add: sendCanMsg_sent(1))
  next
    case False
    then show ?thesis
      using ChatText by (simp add: sendCanMsg_rejected frames_display)
  qed
next
  case (LedCmd v)
  then show ?thesis
    by (simp add: canLedCmdSender_sent(1) canLedCmdSender_lastId)
qed

lemma send_all_invariant:
  assumes "me s \<le> 0x1F"
  shows "(frames (fst (send_all s cs)) = [] \<longrightarrow> lastId (snd (send_all s cs)) = lastId s)
       \<and> (frames (fst (send_all s cs)) \<noteq> [] \<longrightarrow>
            ucast (lastId (snd (send_all s cs))) = fst (last (frames (fst (send_all s cs)))))"
  using assms
proof (induction cs arbitrary: s)
  case Nil
  then show ?case by simp
next
  case (Cons c cs)
  let ?s' = "snd (do_send s c)"
  have me': "me ?s' \<le> 0x1F"
    using Cons.prems by (simp add: do_send_me)
  note ih = Cons.IH [OF me']
  have fr: "frames (fst (send_all s (c # cs))) =
              frames (fst (do_send s c)) @ frames (fst (send_all ?s' cs))"
    and st: "snd (send_all s (c # cs)) = snd (send_all ?s' cs)"
    by (simp_all add: split_beta frames_append)
  show ?case
  proof (cases "frames (fst (send_all ?s' cs)) = []")
    case True
    then show ?thesis
      using do_send_cases [OF Cons.prems, of c] ih unfolding fr st by auto
  next
    case False
    then show ?thesis
      using ih unfolding fr st by simp
  qed
qed


text \<open>
  Claim C6 (priming frame). For a session whose \<open>me\<close> fits the sender field:
  \<^item> a chat message that passes the length check is sent as one data frame, preceded by
    exactly one frame of length 0 with the same identifier when the identifier differs from
    \<open>lastId\<close> and by nothing when it is equal; afterwards \<open>lastId\<close> is the identifier;
  \<^item> an LED command is sent with identifier 0x400 in the same way, and afterwards
    \<open>lastId\<close> is 0x400;
  \<^item> after any sequence of calls of the two senders that has transmitted at least one
    frame, \<open>lastId\<close> is the identifier of the last frame transmitted.
\<close>

theorem priming_frame:
  assumes "me s \<le> 0x1F"
  shows "(unat (of_nat (strlen msg) :: byte) \<le> CAN_MAX_CHAR_IN_MESSAGE \<longrightarrow>
            (\<exists>len data. frames (fst (sendCanMsg s msg)) =
               (if ucast (lastId s) \<noteq> chat_id s then [(chat_id s, 0, [])] else [])
               @ [(chat_id s, len, data)])
            \<and> ucast (lastId (snd (sendCanMsg s msg))) = chat_id s)
       \<and> frames (fst (canLedCmdSender s v)) =
            (if lastId s \<noteq> 0x400 then [(0x400, 0, [])] else [])
            @ [(0x400, 2, [ucast (Device_val DEVICE_TO_COMMAND), ucast v])]
       \<and> lastId (snd (canLedCmdSender s v)) = 0x400
       \<and> (frames (fst (send_all s cs)) \<noteq> [] \<longrightarrow>
            ucast (lastId (snd (send_all s cs))) = fst (last (frames (fst (send_all s cs)))))"
  using send_all_invariant [OF assms, of cs] sendCanMsg_lastId [OF assms, of msg]
  by (simp add: sendCanMsg_sent(1) canLedCmdSender_sent(1) canLedCmdSender_lastId)

theorem priming_frame_witness:
  "RH \<le> 0x1F
   \<and> unat (of_nat (strlen ''hi'') :: byte) \<le> CAN_MAX_CHAR_IN_MESSAGE
   \<and> frames (fst (sendCanMsg \<lparr>me = RH, destination = 0x0C, lastId = 0\<rparr> ''hi''))
       = [(0x4C, 0, []), (0x4C, 2, [0x68, 0x69])]
   \<and> frames (fst (sendCanMsg \<lparr>me = RH, destination = 0x0C, lastId = 0x4C\<rparr> ''hi''))
       = [(0x4C, 2, [0x68, 0x69])]
   \<and> frames (fst (send_all \<lparr>me = RH, destination = 0x0C, lastId = 0\<rparr>
               [ChatText ''hi'', LedCmd HIGH, LedCmd LOW, ChatText ''yo'']))
       = [(0x4C, 0, []), (0x4C, 2, [0x68, 0x69]), (0x400, 0, []), (0x400, 2, [0, 1]),
          (0x400, 2, [0, 0]), (0x4C, 0, []), (0x4C, 2, [0x79, 0x6F])]
   \<and> lastId (snd (send_all \<lparr>me = RH, destination = 0x0C, lastId = 0\<rparr>
               [ChatText ''hi'', LedCmd HIGH, LedCmd LOW, ChatText ''yo''])) = 0x4C"
proof -
  let ?s = "\<lparr>me = RH, destination = 0x0C, lastId = 0\<rparr>"
  let ?cs = "[ChatText ''hi'', LedCmd HIGH, LedCmd LOW, ChatText ''yo'']"
  have id: "chat_id \<lparr>me = RH, destination = 0x0C, lastId = l\<rparr> = 0x4C" for l
    by (simp add: chat_id_def can_defs Zero_defs)
  have len: "strlen ''hi'' = 2" "strlen ''yo'' = 2" "c_str ''hi'' = ''hi''" "c_str ''yo'' = ''yo''"
    by (simp_all add: strlen_def c_str_def)
  have run: "lastId (snd (send_all ?s ?cs)) = 0x4C"
    "frames (fst (send_all ?s ?cs)) =
       [(0x4C, 0, []), (0x4C, 2, [0x68, 0x69]), (0x400, 0, []), (0x400, 2, [0, 1]),
        (0x400, 2, [0, 0]), (0x4C, 0, []), (0x4C, 2, [0x79, 0x6F])]"
    by (simp_all add: sendCanMsg_def canLedCmdSender_def id len can_defs Let_def frames_append
        frames_display frames_displayCanPacket byte_of_char_def DEVICE_TO_COMMAND_def
        HIGH_def LOW_def)
  have one: "frames (fst (sendCanMsg ?s ''hi'')) = [(0x4C, 0, []), (0x4C, 2, [0x68, 0x69])]"
    "frames (fst (sendCanMsg \<lparr>me = RH, destination = 0x0C, lastId = 0x4C\<rparr> ''hi''))
      = [(0x4C, 2, [0x68, 0x69])]"
    by (simp_all add: sendCanMsg_def id len can_defs Let_def frames_displayCanPacket
        byte_of_char_def)
  show ?thesis
    using priming_frame [of ?s "''hi''" HIGH ?cs] run one
    by (simp del: send_all.simps add: Zero_defs len can_defs)
qed

text \<open>
  Claim C8 (command encoding). Every frame \<open>canLedCmdSender\<close> sends has the identifier
  0x400, and its data frame carries the two bytes target device, LED value. No frame that
  \<open>sendCanMsg\<close> sends has this identifier, for any sender value that fits the sender field
  and any destination byte.
\<close>

theorem led_command_encoding:
  assumes "me c \<le> 0x1F"
  shows "(\<forall>f \<in> set (frames (fst (canLedCmdSender s v))). fst f = 0x400)
       \<and> last (frames (fst (canLedCmdSender s v)))
           = (0x400, 2, [ucast (Device_val DEVICE_TO_COMMAND), ucast v])
       \<and> chat_id c \<noteq> 0x400
       \<and> (\<forall>f \<in> set (frames (fst (sendCanMsg c msg))). fst f \<noteq> 0x400)"
proof -
  have ne: "chat_id c \<noteq> 0x400"
    using chat_id_kind [OF assms] by auto
  then have "\<forall>f \<in> set (frames (fst (sendCanMsg c msg))). fst f \<noteq> 0x400"
    using sendCanMsg_ids [of _ c msg] by auto
  then show ?thesis
    using ne by (simp add: canLedCmdSender_sent(1))
qed

theorem led_command_encoding_witness:
  "DC \<le> 0x1F
   \<and> frames (fst (canLedCmdSender \<lparr>me = DC, destination = 0xFF, lastId = 0\<rparr> HIGH))
       = [(0x400, 0, []), (0x400, 2, [0, 1])]
   \<and> frames (fst (sendCanMsg \<lparr>me = DC, destination = 0xFF, lastId = 0\<rparr> ''hi''))
       = [(0x2FF, 0, []), (0x2FF, 2, [0x68, 0x69])]
   \<and> ucast (Device_val UNO) = (0 :: byte) \<and> DEVICE_TO_COMMAND = UNO
   \<and> chat_id \<lparr>me = DC, destination = 0xFF, lastId = 0\<rparr> = 0x2FF
   \<and> (0x2FF :: 32 word) \<noteq> 0x400"
proof -
  let ?s = "\<lparr>me = DC, destination = 0xFF, lastId = 0\<rparr>"
  have id: "chat_id ?s = 0x2FF"
    by (simp add: chat_id_def can_defs Zero_defs)
  have sent: "frames (fst (sendCanMsg ?s ''hi'')) = [(0x2FF, 0, []), (0x2FF, 2, [0x68, 0x69])]"
    by (simp add: sendCanMsg_def strlen_def c_str_def can_defs id byte_of_char_def
        displayCanPacket_def Let_def)
  show ?thesis
    using led_command_encoding [of ?s ?s HIGH "''hi''"] id sent
    by (simp add: canLedCmdSender_sent(1) Zero_defs HIGH_def DEVICE_TO_COMMAND_def)
qed

section \<open>The length check of sendCanMsg\<close>

text \<open>
  For a text of fewer than 256 characters the message is rejected exactly when it has more
  than 8 characters, and a rejection prints the error, sends nothing and leaves the session
  as it was.
\<close>

lemma sendCanMsg_too_long_iff:
  assumes "strlen msg < 256"
  shows "sendCanMsg s msg = (display ERROR_MSG MSG_TOO_LONG, s) \<longleftrightarrow>
           strlen msg > CAN_MAX_CHAR_IN_MESSAGE"
proof -
  have n: "unat (of_nat (strlen msg) :: byte) = strlen msg"
    using assms by (simp add: unat_of_nat)
  show ?thesis
  proof (cases "strlen msg > CAN_MAX_CHAR_IN_MESSAGE")
    case True
    then show ?thesis
      using n by (simp add: sendCanMsg_rejected)
  next
    case False
    then have "frames (fst (sendCanMsg s msg)) \<noteq> []"
      using n by (simp add: sendCanMsg_sent(1))
    then have "sendCanMsg s msg \<noteq> (display ERROR_MSG MSG_TOO_LONG, s)"
      by (auto simp: frames_display)
    then show ?thesis
      using False by simp
  qed
qed

lemma sendCanMsg_rejection_effects:
  assumes "sendCanMsg s msg = (display ERROR_MSG MSG_TOO_LONG, s)"
  shows "fst (sendCanMsg s msg) = [SerialPrintln ''ERROR: Msg Len Too Long'']"
    and "frames (fst (sendCanMsg s msg)) = []"
    and "snd (sendCanMsg s msg) = s"
  using assms
  by (simp_all add: display_def ERROR_MSG_def MSG_TOO_LONG_def FIRST_SECOND_SEG_def c_str_def)

text \<open>
  Claim C7 (too-long boundary). The claim is that \<open>sendCanMsg\<close> rejects a message exactly
  when \<open>strlen(msg) > 8\<close>. The code compares \<^verbatim>\<open>byte len = strlen(msg)\<close>, the length cut to 8
  bits: a text of 256 characters has \<open>len = 0\<close>, passes the check and is transmitted as a
  priming frame and an empty data frame, and \<open>lastId\<close> changes.
\<close>

theorem too_long_check_wraps:
  "strlen (replicate 256 CHR ''a'') = 256
   \<and> CAN_MAX_CHAR_IN_MESSAGE < strlen (replicate 256 CHR ''a'')
   \<and> sendCanMsg \<lparr>me = RH, destination = 0x0C, lastId = 0\<rparr> (replicate 256 CHR ''a'')
       = ([SendMsgBuf 0x4C 0 0 [], SendMsgBuf 0x4C 0 0 [], SerialPrint CHAT_SENT,
           SerialPrintln (replicate 256 CHR ''a''), LcdPacket 0x4C 0 []],
          \<lparr>me = RH, destination = 0x0C, lastId = 0x4C\<rparr>)"
proof -
  have c: "c_str (replicate 256 CHR ''a'') = replicate 256 CHR ''a''"
    by (simp add: c_str_def takeWhile_replicate)
  have id: "chat_id \<lparr>me = RH, destination = 0x0C, lastId = 0\<rparr> = 0x4C"
    by (simp add: chat_id_def can_defs Zero_defs)
  show ?thesis
    by (simp add: sendCanMsg_def strlen_def c id can_defs Let_def displayCanPacket_def)
qed

section \<open>The setup prompts\<close>

text \<open>
  \<open>setupUser\<close> accepts the replies 1 to 4 and polls again after any other; no reply ever
  makes \<open>setupTargets\<close> print the invalid-selection notice, because its range test holds
  for every integer.
\<close>

lemma setupUser_loop_step:
  "setupUser_loop (reply # rest) =
     (if atoi reply \<in> {1, 2, 3, 4} then Some (atoi reply, rest) else setupUser_loop rest)"
proof -
  have "(atoi reply \<le> 0 \<or> atoi reply \<ge> numMembers) \<longleftrightarrow> atoi reply \<notin> {1, 2, 3, 4}"
    by (auto simp: numMembers_def)
  then show ?thesis
    by (simp add: Let_def)
qed

lemma invalid_selection_never_printed:
  "SerialPrintln INVALID_SELECTION \<notin> set (fst (setupTargets_loop s replies))"
proof (induction s replies rule: setupTargets_loop.induct)
  case (1 s)
  then show ?case by simp
next
  case (2 s reply rest)
  have ne: "QUERY_ANOTHER \<noteq> INVALID_SELECTION"
    by (simp add: QUERY_ANOTHER_def INVALID_SELECTION_def)
  have always: "atoi reply > 0 \<or> atoi reply < allMembers"
    by (auto simp: allMembers_def)
  show ?case
    using 2 ne always by (auto simp: Let_def split_beta)
qed

text \<open>
  Claim C9 (setup input validation). The claim is that both prompts accept every ordinal
  from 1 to 5 and reject out-of-range numbers. In the code, \<open>setupUser\<close> does not accept 5
  (it keeps polling; a later 4 is accepted as EH), and \<open>setupTargets\<close> acts on the
  out-of-range reply 7: it sets bit 6 of \<open>destination\<close> and asks for another member without
  printing the notice. With that destination the identifier of a chat from JZ decodes to
  the sender value 0x03.
\<close>

theorem setup_range_checks:
  "atoi ''5'' = 5 \<and> atoi ''4'' = 4 \<and> atoi ''7'' = 7
   \<and> snd (setupUser session0 [''5'']) = Inl NoMoreInput
   \<and> snd (setupUser session0 [''5'', ''4''])
       = Inr (\<lparr>me = EH, destination = 0, lastId = 0\<rparr>, [])
   \<and> setupTargets_loop \<lparr>me = JZ, destination = 0, lastId = 0\<rparr> [''7'', ''n'']
       = ([SerialPrintln QUERY_ANOTHER], Inr (\<lparr>me = JZ, destination = 0x40, lastId = 0\<rparr>, []))
   \<and> fst (snd (isChat \<lparr>me = RH, destination = 0, lastId = 0\<rparr>
         (chat_id \<lparr>me = JZ, destination = 0x40, lastId = 0\<rparr>))) = 0x03"
proof -
  have a: "atoi ''5'' = 5" "atoi ''4'' = 4" "atoi ''7'' = 7" "atoi ''n'' = 0"
    by (simp_all add: atoi_def isspace_def isdigit_def)
  have id: "chat_id \<lparr>me = JZ, destination = 0x40, lastId = 0\<rparr> = 0x60"
    by (simp add: chat_id_def can_defs Zero_defs)
  show ?thesis
    by (simp add: a id setupUser_def numMembers_def user_of_def session0_def NONE_def
        startsWith_def allMembers_def isChat_sender)
qed

end
